theory Spec2Isabelle
  imports Complex_Main
begin

section \<open>The Prometheus monitor (supabase/functions/prometheus-monitor/index.ts)\<close>

text \<open>
  JavaScript numbers are modelled as \<^typ>\<open>real\<close>: the formulas, comparisons and branch
  order of the source are kept, the rounding of IEEE doubles is not represented.
  Timestamps are integers (milliseconds since the epoch). A column that may be
  \<^verbatim>\<open>null\<close> is an \<^typ>\<open>'a option\<close>. Tables of the backing store are lists of rows;
  the store itself is taken to answer every query (supabase-js reports failures in
  the returned object and does not throw).
\<close>

subsection \<open>Rows\<close>

text \<open>A row of \<^verbatim>\<open>cluster_metrics\<close>, with the columns the monitor reads.\<close>

record metric =
  metric_type :: string
  m_value :: real
  node_name :: "string option"
  resource_name :: "string option"

text \<open>A row of \<^verbatim>\<open>cluster_configs\<close>.\<close>

record cluster =
  cluster_id :: string
  user_id :: string

text \<open>A row of \<^verbatim>\<open>pod_health\<close>.\<close>

record pod_health =
  pod_name :: string
  namespace :: string
  container_name :: "string option"
  restart_count :: int
  status :: string
  updated_at :: int

text \<open>
  A row of \<^verbatim>\<open>monitoring_alerts\<close>. The columns \<^verbatim>\<open>id\<close>, \<^verbatim>\<open>acknowledged\<close>,
  \<^verbatim>\<open>created_at\<close>, \<^verbatim>\<open>updated_at\<close> and the formatted \<^verbatim>\<open>message\<close> text are left out;
  \<open>al_resolved\<close> is the column \<^verbatim>\<open>resolved\<close>, which an insert leaves at its default
  \<^verbatim>\<open>false\<close>.
\<close>

record alert =
  al_cluster_id :: string
  al_user_id :: string
  al_alert_type :: string
  al_severity :: string
  al_threshold_value :: real
  al_current_value :: real
  al_node_name :: "string option"
  al_resource_name :: "string option"
  al_resolved :: bool

subsection \<open>calculateComponentScore\<close>

text \<open>
  \<^verbatim>\<open>
  function calculateComponentScore(metrics, type, alertThreshold) {
    const typeMetrics = metrics.filter(m => m.metric_type === type);
    if (typeMetrics.length === 0) return 100;
    const avgValue = typeMetrics.reduce((sum, m) => sum + m.value, 0) / typeMetrics.length;
    if (avgValue >= alertThreshold) {
      return Math.max(0, 100 - (avgValue - alertThreshold) * 10);
    }
    return Math.max(0, 100 - (avgValue / alertThreshold) * 50);
  }
  \<close>
  The three call sites pass the literals 80, 85 and 90 as \<open>alertThreshold\<close>; a zero
  threshold (where JavaScript divides to an infinity and HOL to 0) is outside the
  theorems below.
\<close>

definition calculateComponentScore :: "metric list \<Rightarrow> string \<Rightarrow> real \<Rightarrow> real" where
  "calculateComponentScore metrics ty alertThreshold =
     (let typeMetrics = filter (\<lambda>m. metric_type m = ty) metrics in
      if length typeMetrics = 0 then 100
      else
        let avgValue = foldl (\<lambda>sum m. sum + m_value m) 0 typeMetrics / real (length typeMetrics) in
        if avgValue \<ge> alertThreshold
        then max 0 (100 - (avgValue - alertThreshold) * 10)
        else max 0 (100 - (avgValue / alertThreshold) * 50))"

subsection \<open>calculateClusterHealthScore\<close>

text \<open>\<^verbatim>\<open>Math.round\<close>: the nearest integer, halves rounded up.\<close>

definition Math_round :: "real \<Rightarrow> int" where
  "Math_round x = \<lfloor>x + 1 / 2\<rfloor>"

text \<open>\<^verbatim>\<open>Boolean(s)\<close> on a nullable string: \<^verbatim>\<open>null\<close> and the empty string are falsy.\<close>

definition truthy :: "string option \<Rightarrow> bool" where
  "truthy s = (case s of None \<Rightarrow> False | Some n \<Rightarrow> n \<noteq> [])"

text \<open>The row upserted into \<^verbatim>\<open>cluster_health_scores\<close> (scores rounded to two places).\<close>

record health_score =
  hs_cluster_id :: string
  overall_score :: real
  cpu_score :: real
  memory_score :: real
  disk_score :: real
  network_score :: real
  pod_health_score :: real
  node_count :: nat
  healthy_nodes :: nat
  total_pods :: nat
  healthy_pods :: nat

text \<open>The object returned to the caller (component scores unrounded).\<close>

record health_summary =
  overallScore :: real
  cpuScore :: real
  memoryScore :: real
  diskScore :: real
  networkScore :: real
  podHealthScore :: real

text \<open>
  The function takes the results of its two queries: the metrics of the last five
  minutes and the \<^verbatim>\<open>pod_health\<close> rows of the cluster, either of which may be
  \<^verbatim>\<open>null\<close>. It returns \<open>Inl\<close> of the error text, or \<open>Inr\<close> of the upserted row and
  the returned summary.
  \<^verbatim>\<open>
  if (!metrics || metrics.length === 0) return { error: 'No recent metrics available' };
  ...
  const totalPods = podHealth?.length || 0;
  const healthyPods = podHealth?.filter(p => p.status === 'Running').length || 0;
  const podHealthScore = totalPods > 0 ? (healthyPods / totalPods) * 100 : 100;
  \<close>
\<close>

definition calculateClusterHealthScore ::
  "cluster \<Rightarrow> metric list option \<Rightarrow> pod_health list option \<Rightarrow> string + (health_score \<times> health_summary)" where
  "calculateClusterHealthScore c metricsq podHealth =
     (case metricsq of
        None \<Rightarrow> Inl ''No recent metrics available''
      | Some metrics \<Rightarrow>
          if length metrics = 0 then Inl ''No recent metrics available''
          else
            let cpuS = calculateComponentScore metrics ''cpu'' 80;
                memoryS = calculateComponentScore metrics ''memory'' 85;
                diskS = calculateComponentScore metrics ''disk'' 90;
                networkS = 95;
                totalPods = (case podHealth of None \<Rightarrow> 0 | Some ps \<Rightarrow> length ps);
                healthyPods = (case podHealth of None \<Rightarrow> 0
                               | Some ps \<Rightarrow> length (filter (\<lambda>p. status p = ''Running'') ps));
                podS = (if totalPods > 0 then (real healthyPods / real totalPods) * 100 else 100);
                uniqueNodes = remdups (filter truthy (map node_name metrics));
                nodeCount = (if length uniqueNodes = 0 then 1 else length uniqueNodes);
                healthyNodes = nodeCount;
                overallS = cpuS * 0.25 + memoryS * 0.25 + diskS * 0.20 + networkS * 0.10 + podS * 0.20
            in Inr (\<lparr>hs_cluster_id = cluster_id c,
                      overall_score = real_of_int (Math_round (overallS * 100)) / 100,
                      cpu_score = real_of_int (Math_round (cpuS * 100)) / 100,
                      memory_score = real_of_int (Math_round (memoryS * 100)) / 100,
                      disk_score = real_of_int (Math_round (diskS * 100)) / 100,
                      network_score = real_of_int (Math_round (networkS * 100)) / 100,
                      pod_health_score = real_of_int (Math_round (podS * 100)) / 100,
                      node_count = nodeCount,
                      healthy_nodes = healthyNodes,
                      total_pods = totalPods,
                      healthy_pods = healthyPods\<rparr>,
                    \<lparr>overallScore = real_of_int (Math_round (overallS * 100)) / 100,
                      cpuScore = cpuS, memoryScore = memoryS, diskScore = diskS,
                      networkScore = networkS, podHealthScore = podS\<rparr>))"

subsection \<open>checkMetricThresholds\<close>

record threshold =
  critical :: real
  warning :: real

text \<open>
  \<^verbatim>\<open>
  const thresholds = {
    cpu: { critical: 90, warning: 80 },
    memory: { critical: 95, warning: 85 },
    disk: { critical: 95, warning: 90 }
  };
  \<close>
  \<open>None\<close> is the lookup of a metric type without an entry, which the loop skips.
  (A metric type that names a property inherited by every object, such as
  \<^verbatim>\<open>constructor\<close>, is not skipped, but its \<^verbatim>\<open>critical\<close> and \<^verbatim>\<open>warning\<close> are
  \<^verbatim>\<open>undefined\<close>, both comparisons are false and no alert is written either.)
\<close>

definition thresholds :: "string \<Rightarrow> threshold option" where
  "thresholds ty =
     (if ty = ''cpu'' then Some \<lparr>critical = 90, warning = 80\<rparr>
      else if ty = ''memory'' then Some \<lparr>critical = 95, warning = 85\<rparr>
      else if ty = ''disk'' then Some \<lparr>critical = 95, warning = 90\<rparr>
      else None)"

text \<open>
  The severity decision of the loop body; \<open>severity\<close> starts as \<^verbatim>\<open>null\<close> and
  \<open>thresholdValue\<close> as 0.
  \<^verbatim>\<open>
  if (metric.value >= threshold.critical) { severity = 'critical'; thresholdValue = threshold.critical; }
  else if (metric.value >= threshold.warning) { severity = 'warning'; thresholdValue = threshold.warning; }
  \<close>
\<close>

definition severity_of :: "threshold \<Rightarrow> real \<Rightarrow> string option \<times> real" where
  "severity_of th v =
     (if v \<ge> critical th then (Some ''critical'', critical th)
      else if v \<ge> warning th then (Some ''warning'', warning th)
      else (None, 0))"

text \<open>\<^verbatim>\<open>metric.node_name || ''\<close>\<close>

definition or_empty :: "string option \<Rightarrow> string" where
  "or_empty s = (case s of None \<Rightarrow> [] | Some n \<Rightarrow> n)"

text \<open>
  The lookup of an open alert:
  \<^verbatim>\<open>
  .from('monitoring_alerts').select('id')
  .eq('cluster_id', cluster.id)
  .eq('alert_type', `${metric.metric_type}_pressure`)
  .eq('node_name', metric.node_name || '')
  .eq('resolved', false)
  .single()
  \<close>
  An equality filter never matches a \<^verbatim>\<open>NULL\<close> column, so a row is selected only when
  its \<open>al_node_name\<close> is \<open>Some\<close> of the text searched for. \<^verbatim>\<open>.single()\<close> yields the
  row when exactly one row matches and \<^verbatim>\<open>null\<close> data otherwise.
\<close>

definition matching_alerts :: "alert list \<Rightarrow> cluster \<Rightarrow> metric \<Rightarrow> alert list" where
  "matching_alerts tbl c m =
     filter (\<lambda>a. al_cluster_id a = cluster_id c
                \<and> al_alert_type a = metric_type m @ ''_pressure''
                \<and> al_node_name a = Some (or_empty (node_name m))
                \<and> al_resolved a = False) tbl"

definition single :: "'a list \<Rightarrow> 'a option" where
  "single rows = (case rows of [r] \<Rightarrow> Some r | _ \<Rightarrow> None)"

definition existingAlert :: "alert list \<Rightarrow> cluster \<Rightarrow> metric \<Rightarrow> alert option" where
  "existingAlert tbl c m = single (matching_alerts tbl c m)"

text \<open>The row inserted for a violating sample; \<open>node_name\<close> is stored as the sample has it.\<close>

definition new_alert :: "cluster \<Rightarrow> metric \<Rightarrow> string \<Rightarrow> real \<Rightarrow> alert" where
  "new_alert c m sev thresholdValue =
     \<lparr>al_cluster_id = cluster_id c,
      al_user_id = user_id c,
      al_alert_type = metric_type m @ ''_pressure'',
      al_severity = sev,
      al_threshold_value = thresholdValue,
      al_current_value = m_value m,
      al_node_name = node_name m,
      al_resource_name = resource_name m,
      al_resolved = False\<rparr>"

text \<open>
  One iteration of \<^verbatim>\<open>for (const metric of metrics)\<close>, on the table of alerts and the
  counter \<open>alertsCreated\<close>.
\<close>

definition check_metric :: "cluster \<Rightarrow> metric \<Rightarrow> alert list \<times> nat \<Rightarrow> alert list \<times> nat" where
  "check_metric c m st =
     (case thresholds (metric_type m) of
        None \<Rightarrow> st
      | Some th \<Rightarrow>
          (case severity_of th (m_value m) of
             (None, _) \<Rightarrow> st
           | (Some sev, thresholdValue) \<Rightarrow>
               (case existingAlert (fst st) c m of
                  Some _ \<Rightarrow> st
                | None \<Rightarrow> (fst st @ [new_alert c m sev thresholdValue], snd st + 1))))"

text \<open>
  The pass: the metrics of the last two minutes (\<open>None\<close> for \<^verbatim>\<open>null\<close> data) are
  checked in order against the table; the result is the new table and \<open>alertsCreated\<close>.
\<close>

definition checkMetricThresholds :: "cluster \<Rightarrow> metric list option \<Rightarrow> alert list \<Rightarrow> alert list \<times> nat" where
  "checkMetricThresholds c metricsq tbl =
     (case metricsq of
        None \<Rightarrow> (tbl, 0)
      | Some metrics \<Rightarrow>
          if length metrics = 0 then (tbl, 0)
          else fold (check_metric c) metrics (tbl, 0))"

text \<open>The number of unresolved alerts of a (cluster, type, node) triple.\<close>

definition open_alerts :: "alert list \<Rightarrow> string \<Rightarrow> string \<Rightarrow> string option \<Rightarrow> nat" where
  "open_alerts tbl cid ty node =
     length (filter (\<lambda>a. al_cluster_id a = cid \<and> al_alert_type a = ty
                        \<and> al_node_name a = node \<and> \<not> al_resolved a) tbl)"


section \<open>The intelligent analysis function (event correlation, restart trends, suggestions)\<close>

subsection \<open>Oracles\<close>

text \<open>
  Each oracle is a call to a hosted language model inside a \<^verbatim>\<open>try\<close> block. The model
  takes the outcome of that call as a parameter: \<open>CallFailed\<close> is any exception raised
  inside the block (the request is rejected, the body is not JSON, the answer has no
  \<^verbatim>\<open>choices\<close>, \<^verbatim>\<open>JSON.parse\<close> of the content throws); \<open>Reply\<close> carries a content that
  parses to the JSON shape the prompt asks for.
\<close>

datatype 'a oracle_reply = CallFailed | Reply 'a

subsection \<open>Event correlation\<close>

text \<open>A row of \<^verbatim>\<open>cluster_events\<close>; \<open>created_at\<close> in milliseconds.\<close>

record event =
  ev_id :: string
  created_at :: int
  ev_name :: string
  ev_kind :: string
  ev_namespace :: string

record time_window =
  startTime :: int
  endTime :: int
  events :: "event list"

text \<open>
  \<^verbatim>\<open>
  let window = windows.find(w => eventTime >= w.startTime && eventTime <= w.endTime);
  if (!window) {
    window = { startTime: new Date(Math.floor(eventTime.getTime() / windowMs) * windowMs),
               endTime: new Date(Math.floor(eventTime.getTime() / windowMs) * windowMs + windowMs),
               events: [] };
    windows.push(window);
  }
  window.events.push(event);
  \<close>
  \<open>push_found\<close> appends the event to the first window that satisfies the test, in
  place, and is \<open>None\<close> when no window does.
\<close>

fun push_found :: "(time_window \<Rightarrow> bool) \<Rightarrow> event \<Rightarrow> time_window list \<Rightarrow> time_window list option" where
  "push_found P e [] = None"
| "push_found P e (w # ws) =
     (if P w then Some (w\<lparr>events := events w @ [e]\<rparr> # ws)
      else map_option ((#) w) (push_found P e ws))"

definition place_event :: "int \<Rightarrow> time_window list \<Rightarrow> event \<Rightarrow> time_window list" where
  "place_event windowMs windows e =
     (let eventTime = created_at e in
      case push_found (\<lambda>w. eventTime \<ge> startTime w \<and> eventTime \<le> endTime w) e windows of
        Some windows' \<Rightarrow> windows'
      | None \<Rightarrow>
          windows @ [\<lparr>startTime = (eventTime div windowMs) * windowMs,
                      endTime = (eventTime div windowMs) * windowMs + windowMs,
                      events = [e]\<rparr>])"

definition groupEventsByTimeWindows :: "event list \<Rightarrow> int \<Rightarrow> time_window list" where
  "groupEventsByTimeWindows evs windowMinutes =
     (let windowMs = windowMinutes * 60 * 1000 in foldl (place_event windowMs) [] evs)"

text \<open>The JSON the correlation prompt asks for, and what the wrapper returns.\<close>

record correlation_json =
  isCorrelated :: bool
  cj_confidence :: real
  cj_rootCause :: string
  cj_type :: string

record correlation_analysis =
  confidence :: real
  rootCause :: string
  corr_type :: string

text \<open>
  \<^verbatim>\<open>
  try { ...
    return { confidence: result.isCorrelated ? result.confidence : 0,
             rootCause: result.rootCause, type: result.type };
  } catch (error) {
    return { confidence: 0, rootCause: 'Analysis failed', type: 'unknown' };
  }
  \<close>
\<close>

definition analyzeEventCorrelationWithAI ::
  "(event list \<Rightarrow> correlation_json oracle_reply) \<Rightarrow> event list \<Rightarrow> correlation_analysis" where
  "analyzeEventCorrelationWithAI llm evs =
     (case llm evs of
        Reply result \<Rightarrow>
          \<lparr>confidence = (if isCorrelated result then cj_confidence result else 0),
           rootCause = cj_rootCause result,
           corr_type = cj_type result\<rparr>
      | CallFailed \<Rightarrow> \<lparr>confidence = 0, rootCause = ''Analysis failed'', corr_type = ''unknown''\<rparr>)"

text \<open>A row of \<^verbatim>\<open>event_correlations\<close>; a resource is (name, kind, namespace).\<close>

record event_correlation =
  ec_cluster_id :: string
  correlation_id :: string
  primary_event_id :: string
  related_event_ids :: "string list"
  root_cause_analysis :: string
  confidence_score :: real
  correlation_type :: string
  affected_resources :: "(string \<times> string \<times> string) list"

text \<open>
  \<^verbatim>\<open>upsert(row, { onConflict: ... })\<close>: the row replaces the stored row with the same
  conflict key, and is appended when there is none.
\<close>

fun upsert :: "('a \<Rightarrow> 'a \<Rightarrow> bool) \<Rightarrow> 'a \<Rightarrow> 'a list \<Rightarrow> 'a list" where
  "upsert same r [] = [r]"
| "upsert same r (x # xs) = (if same r x then r # xs else x # upsert same r xs)"

definition same_correlation :: "event_correlation \<Rightarrow> event_correlation \<Rightarrow> bool" where
  "same_correlation r x = (ec_cluster_id r = ec_cluster_id x \<and> correlation_id r = correlation_id x)"

text \<open>
  One iteration of \<^verbatim>\<open>for (const window of timeWindows)\<close>, on the table of
  correlations and the counter \<open>correlationsCreated\<close>. The identifier
  \<^verbatim>\<open>corr_<cluster>_<Date.now()>_<random>\<close> comes from the clock and the random
  generator: \<open>ids n\<close> is the identifier drawn for the correlation created after \<open>n\<close>
  others in the pass.
  \<^verbatim>\<open>
  if (window.events.length < 2) continue;
  const correlationAnalysis = await analyzeEventCorrelationWithAI(window.events);
  if (correlationAnalysis.confidence > 0.7) { ... upsert ...; correlationsCreated++; }
  \<close>
\<close>

definition correlation_row ::
  "cluster \<Rightarrow> string \<Rightarrow> correlation_analysis \<Rightarrow> event \<Rightarrow> event list \<Rightarrow> event_correlation" where
  "correlation_row c correlationId a e0 rest =
     \<lparr>ec_cluster_id = cluster_id c,
      correlation_id = correlationId,
      primary_event_id = ev_id e0,
      related_event_ids = map ev_id rest,
      root_cause_analysis = rootCause a,
      confidence_score = confidence a,
      correlation_type = corr_type a,
      affected_resources = map (\<lambda>e. (ev_name e, ev_kind e, ev_namespace e)) (e0 # rest)\<rparr>"

definition correlate_window ::
  "cluster \<Rightarrow> (event list \<Rightarrow> correlation_json oracle_reply) \<Rightarrow> (nat \<Rightarrow> string)
   \<Rightarrow> event_correlation list \<times> nat \<Rightarrow> time_window \<Rightarrow> event_correlation list \<times> nat" where
  "correlate_window c llm ids st window =
     (case events window of
        e0 # e1 # rest \<Rightarrow>
          (let correlationAnalysis = analyzeEventCorrelationWithAI llm (events window) in
           if confidence correlationAnalysis > 0.7
           then (upsert same_correlation
                   (correlation_row c (ids (snd st)) correlationAnalysis e0 (e1 # rest)) (fst st),
                 snd st + 1)
           else st)
      | _ \<Rightarrow> st)"

datatype correlation_result = CorrelationsFound nat | CorrelationsCreated nat

text \<open>
  The pass, on the events of the last two hours (\<open>None\<close> when the query fails or
  yields \<^verbatim>\<open>null\<close>) and the table of correlations.
\<close>

definition performEventCorrelation ::
  "cluster \<Rightarrow> (event list \<Rightarrow> correlation_json oracle_reply) \<Rightarrow> (nat \<Rightarrow> string)
   \<Rightarrow> event list option \<Rightarrow> event_correlation list \<Rightarrow> event_correlation list \<times> correlation_result" where
  "performEventCorrelation c llm ids eventsq tbl =
     (case eventsq of
        None \<Rightarrow> (tbl, CorrelationsFound 0)
      | Some evs \<Rightarrow>
          if length evs = 0 then (tbl, CorrelationsFound 0)
          else
            let timeWindows = groupEventsByTimeWindows evs 5;
                st = foldl (correlate_window c llm ids) (tbl, 0) timeWindows
            in (fst st, CorrelationsCreated (snd st)))"

subsection \<open>Restart trends\<close>

text \<open>
  A JavaScript \<^verbatim>\<open>Map\<close> object. Its entries live in the internal slot
  \<^verbatim>\<open>[[MapData]]\<close>, in insertion order, and are reached through \<^verbatim>\<open>has\<close>, \<^verbatim>\<open>get\<close>
  and \<^verbatim>\<open>set\<close>; they are not properties of the object. \<^verbatim>\<open>Object.entries\<close> lists the
  own enumerable string-keyed properties of an object, of which \<^verbatim>\<open>new Map()\<close> has
  none and \<^verbatim>\<open>set\<close> adds none.
\<close>

record ('k, 'v) js_map =
  own_properties :: "(string \<times> 'v) list"
  map_data :: "('k \<times> 'v) list"

definition Map_new :: "('k, 'v) js_map" where
  "Map_new = \<lparr>own_properties = [], map_data = []\<rparr>"

definition Map_get :: "('k, 'v) js_map \<Rightarrow> 'k \<Rightarrow> 'v option" where
  "Map_get m k = map_of (map_data m) k"

definition Map_has :: "('k, 'v) js_map \<Rightarrow> 'k \<Rightarrow> bool" where
  "Map_has m k = (Map_get m k \<noteq> None)"

fun assoc_set :: "'k \<Rightarrow> 'v \<Rightarrow> ('k \<times> 'v) list \<Rightarrow> ('k \<times> 'v) list" where
  "assoc_set k v [] = [(k, v)]"
| "assoc_set k v (p # ps) = (if fst p = k then (k, v) # ps else p # assoc_set k v ps)"

definition Map_set :: "('k, 'v) js_map \<Rightarrow> 'k \<Rightarrow> 'v \<Rightarrow> ('k, 'v) js_map" where
  "Map_set m k v = m\<lparr>map_data := assoc_set k v (map_data m)\<rparr>"

definition Object_entries :: "('k, 'v) js_map \<Rightarrow> (string \<times> 'v) list" where
  "Object_entries m = own_properties m"

text \<open>
  \<^verbatim>\<open>
  function groupBy<T, K>(array: T[], keyFunc: (item: T) => K): Map<K, T[]> {
    const groups = new Map<K, T[]>();
    for (const item of array) {
      const key = keyFunc(item);
      if (!groups.has(key)) { groups.set(key, []); }
      groups.get(key)!.push(item);
    }
    return groups;
  }
  \<close>
  \<^verbatim>\<open>push\<close> changes the stored array in place, which is a \<open>Map_set\<close> of the longer list.
\<close>

definition groupBy_step :: "('a \<Rightarrow> 'k) \<Rightarrow> ('k, 'a list) js_map \<Rightarrow> 'a \<Rightarrow> ('k, 'a list) js_map" where
  "groupBy_step keyFunc groups item =
     (let key = keyFunc item;
          groups1 = (if \<not> Map_has groups key then Map_set groups key [] else groups)
      in case Map_get groups1 key of
           Some xs \<Rightarrow> Map_set groups1 key (xs @ [item])
         | None \<Rightarrow> groups1)"

definition groupBy :: "'a list \<Rightarrow> ('a \<Rightarrow> 'k) \<Rightarrow> ('k, 'a list) js_map" where
  "groupBy array keyFunc = foldl (groupBy_step keyFunc) Map_new array"

text \<open>What the trend prompt asks for; the wrapper returns the parsed object as it is.\<close>

record trend_analysis =
  significance :: real
  direction :: string
  score :: real
  analysis :: string

text \<open>
  \<^verbatim>\<open>
  try { ... return JSON.parse(data.choices[0].message.content); }
  catch (error) {
    return { significance: 0, direction: 'stable', score: 0, analysis: 'Analysis failed' };
  }
  \<close>
\<close>

definition analyzePodTrendWithAI ::
  "(pod_health list \<Rightarrow> trend_analysis oracle_reply) \<Rightarrow> pod_health list \<Rightarrow> trend_analysis" where
  "analyzePodTrendWithAI llm podData =
     (case llm podData of
        Reply result \<Rightarrow> result
      | CallFailed \<Rightarrow> \<lparr>significance = 0, direction = ''stable'', score = 0, analysis = ''Analysis failed''\<rparr>)"

text \<open>
  \<^verbatim>\<open>calculateAverageRestartInterval\<close> returns the text \<^verbatim>\<open>'0 seconds'\<close> or
  \<^verbatim>\<open>`${avgMinutes} minutes`\<close>; the model returns the number and the unit.
\<close>

fun intervals :: "int list \<Rightarrow> int list" where
  "intervals (prevTime # currTime # ts) = (currTime - prevTime) # intervals (currTime # ts)"
| "intervals ts = []"

definition calculateAverageRestartInterval :: "pod_health list \<Rightarrow> int \<times> string" where
  "calculateAverageRestartInterval podData =
     (if length podData < 2 then (0, ''seconds'')
      else
        let ivs = intervals (map updated_at podData);
            avgMs = real_of_int (foldl (\<lambda>sum interval. sum + interval) 0 ivs) / real (length ivs);
            avgMinutes = Math_round (avgMs / (1000 * 60))
        in (avgMinutes, ''minutes''))"

text \<open>A row of \<^verbatim>\<open>pod_restart_trends\<close>.\<close>

record pod_restart_trend =
  prt_cluster_id :: string
  prt_pod_name :: string
  prt_namespace :: string
  time_window :: int
  prt_restart_count :: int
  avg_restart_interval :: "int \<times> string"
  trend_direction :: string
  trend_score :: real

definition same_trend :: "pod_restart_trend \<Rightarrow> pod_restart_trend \<Rightarrow> bool" where
  "same_trend r x =
     (prt_cluster_id r = prt_cluster_id x \<and> prt_pod_name r = prt_pod_name x
      \<and> prt_namespace r = prt_namespace x \<and> time_window r = time_window x)"

text \<open>
  \<^verbatim>\<open>const currentHour = new Date(); currentHour.setMinutes(0, 0, 0);\<close> with \<open>now\<close> the
  clock in milliseconds (in a time zone whose offset is whole hours).
\<close>

definition currentHour :: "int \<Rightarrow> int" where
  "currentHour now = (now div 3600000) * 3600000"

text \<open>
  The body of the loop over the groups, on the table of trends and the counter
  \<open>trendsCreated\<close>.
  \<^verbatim>\<open>
  if (podData.length < 2) continue;
  const trendAnalysis = await analyzePodTrendWithAI(podData);
  if (trendAnalysis.significance > 0.5) { ... upsert ...; trendsCreated++; }
  \<close>
\<close>

definition trend_group ::
  "cluster \<Rightarrow> (pod_health list \<Rightarrow> trend_analysis oracle_reply) \<Rightarrow> int
   \<Rightarrow> pod_restart_trend list \<times> nat \<Rightarrow> string \<times> pod_health list \<Rightarrow> pod_restart_trend list \<times> nat" where
  "trend_group c llm now st entry =
     (let podData = snd entry in
      if length podData < 2 then st
      else
        let trendAnalysis = analyzePodTrendWithAI llm podData in
        if significance trendAnalysis > 0.5
        then (upsert same_trend
                \<lparr>prt_cluster_id = cluster_id c,
                 prt_pod_name = pod_name (hd podData),
                 prt_namespace = namespace (hd podData),
                 time_window = currentHour now,
                 prt_restart_count = restart_count (last podData),
                 avg_restart_interval = calculateAverageRestartInterval podData,
                 trend_direction = direction trendAnalysis,
                 trend_score = score trendAnalysis\<rparr> (fst st),
              snd st + 1)
        else st)"

datatype trend_result = TrendsAnalyzed nat | TrendsCreated nat

text \<open>
  The pass, on the \<^verbatim>\<open>pod_health\<close> rows of the last 24 hours in ascending
  \<open>updated_at\<close> (\<open>None\<close> when the query fails or yields \<^verbatim>\<open>null\<close>).
  \<^verbatim>\<open>
  const podGroups = groupBy(podHealthData, pod => `${pod.pod_name}_${pod.namespace}`);
  let trendsCreated = 0;
  for (const [podKey, podData] of Object.entries(podGroups)) { ... }
  return { trendsCreated };
  \<close>
\<close>

definition analyzePodRestartTrends ::
  "cluster \<Rightarrow> (pod_health list \<Rightarrow> trend_analysis oracle_reply) \<Rightarrow> int
   \<Rightarrow> pod_health list option \<Rightarrow> pod_restart_trend list \<Rightarrow> pod_restart_trend list \<times> trend_result" where
  "analyzePodRestartTrends c llm now podHealthData tbl =
     (case podHealthData of
        None \<Rightarrow> (tbl, TrendsAnalyzed 0)
      | Some rows \<Rightarrow>
          if length rows = 0 then (tbl, TrendsAnalyzed 0)
          else
            let podGroups = groupBy rows (\<lambda>pod. pod_name pod @ ''_'' @ namespace pod);
                st = foldl (trend_group c llm now) (tbl, 0) (Object_entries podGroups)
            in (fst st, TrendsCreated (snd st)))"

subsection \<open>Suggestions\<close>

text \<open>A row of \<^verbatim>\<open>smart_alerts\<close>.\<close>

record smart_alert =
  sa_id :: string
  sa_cluster_id :: string
  sa_alert_type :: string
  sa_severity :: string
  sa_resource_name :: string
  is_resolved :: bool

text \<open>An element of the JSON array the suggestion prompt asks for.\<close>

record suggestion_json =
  sj_type :: string
  sj_priority :: int
  sj_title :: string
  sj_description :: string
  sj_actionSteps :: "string list"
  sj_estimatedImpact :: string
  sj_difficulty :: string
  sj_confidence :: real

text \<open>A row of \<^verbatim>\<open>intelligent_suggestions\<close>.\<close>

record suggestion =
  alert_id :: string
  suggestion_type :: string
  priority :: int
  title :: string
  description :: string
  action_steps :: "string list"
  estimated_impact :: string
  implementation_difficulty :: string
  ai_confidence :: real

text \<open>
  \<^verbatim>\<open>
  try { ... return JSON.parse(data.choices[0].message.content); }
  catch (error) { return []; }
  \<close>
\<close>

definition generateSuggestionsWithAI ::
  "(smart_alert \<Rightarrow> cluster \<Rightarrow> suggestion_json list oracle_reply) \<Rightarrow> smart_alert \<Rightarrow> cluster
   \<Rightarrow> suggestion_json list" where
  "generateSuggestionsWithAI llm a c =
     (case llm a c of Reply suggestions \<Rightarrow> suggestions | CallFailed \<Rightarrow> [])"

definition suggestion_row :: "smart_alert \<Rightarrow> suggestion_json \<Rightarrow> suggestion" where
  "suggestion_row a s =
     \<lparr>alert_id = sa_id a,
      suggestion_type = sj_type s,
      priority = sj_priority s,
      title = sj_title s,
      description = sj_description s,
      action_steps = sj_actionSteps s,
      estimated_impact = sj_estimatedImpact s,
      implementation_difficulty = sj_difficulty s,
      ai_confidence = sj_confidence s\<rparr>"

text \<open>
  What the pass changes: the table of suggestions, the counter \<open>suggestionsCreated\<close>,
  and the requests sent to the oracle, recorded as the identifiers of the alerts
  they were made for, in order.
\<close>

record suggestion_state =
  suggestions :: "suggestion list"
  oracle_calls :: "string list"
  suggestionsCreated :: nat

text \<open>
  One iteration of \<^verbatim>\<open>for (const alert of alerts)\<close>.
  \<^verbatim>\<open>
  const { data: existingSuggestions } = await supabase
    .from('intelligent_suggestions').select('id').eq('alert_id', alert.id);
  if (existingSuggestions && existingSuggestions.length > 0) continue;
  const suggestions = await generateSuggestionsWithAI(alert, cluster);
  for (const suggestion of suggestions) { ... insert ...; suggestionsCreated++; }
  \<close>
\<close>

definition suggest_alert ::
  "cluster \<Rightarrow> (smart_alert \<Rightarrow> cluster \<Rightarrow> suggestion_json list oracle_reply)
   \<Rightarrow> suggestion_state \<Rightarrow> smart_alert \<Rightarrow> suggestion_state" where
  "suggest_alert c llm st a =
     (let existingSuggestions = filter (\<lambda>s. alert_id s = sa_id a) (suggestions st) in
      if length existingSuggestions > 0 then st
      else
        let new = generateSuggestionsWithAI llm a c in
        \<lparr>suggestions = suggestions st @ map (suggestion_row a) new,
         oracle_calls = oracle_calls st @ [sa_id a],
         suggestionsCreated = suggestionsCreated st + length new\<rparr>)"

datatype suggestion_result = SuggestionsGenerated nat | SuggestionsCreated nat

text \<open>
  The alerts the pass visits:
  \<^verbatim>\<open>.from('smart_alerts').select('*').eq('cluster_id', cluster.id).eq('is_resolved', false)\<close>
  (the order, newest first, is not represented).
\<close>

definition unresolved_alerts :: "cluster \<Rightarrow> smart_alert list \<Rightarrow> smart_alert list" where
  "unresolved_alerts c tbl = filter (\<lambda>a. sa_cluster_id a = cluster_id c \<and> is_resolved a = False) tbl"

text \<open>
  The pass, on the table \<^verbatim>\<open>smart_alerts\<close> (\<open>None\<close> when the query fails) and the
  table of suggestions with no request made yet and the counter at 0.
\<close>

definition generateIntelligentSuggestions ::
  "cluster \<Rightarrow> (smart_alert \<Rightarrow> cluster \<Rightarrow> suggestion_json list oracle_reply)
   \<Rightarrow> smart_alert list option \<Rightarrow> suggestion list \<Rightarrow> suggestion_state \<times> suggestion_result" where
  "generateIntelligentSuggestions c llm smart_alerts tbl =
     (let st0 = \<lparr>suggestions = tbl, oracle_calls = [], suggestionsCreated = 0\<rparr> in
      case smart_alerts of
        None \<Rightarrow> (st0, SuggestionsGenerated 0)
      | Some rows \<Rightarrow>
          let alerts = unresolved_alerts c rows in
          if length alerts = 0 then (st0, SuggestionsGenerated 0)
          else
            let st = foldl (suggest_alert c llm) st0 alerts
            in (st, SuggestionsCreated (suggestionsCreated st)))"

section \<open>The Slack notification function\<close>

text \<open>Rows of \<^verbatim>\<open>slack_webhooks\<close> and \<^verbatim>\<open>notification_preferences\<close>.\<close>

record slack_webhook =
  wh_id :: string
  wh_cluster_id :: "string option"
  webhook_url :: string
  channel_name :: string

record notification_preference =
  np_cluster_id :: "string option"
  severity_threshold :: string

definition severityLevels :: "string list" where
  "severityLevels = [''low'', ''medium'', ''high'', ''critical'']"

text \<open>\<^verbatim>\<open>Array.prototype.indexOf\<close>: the first position of the element, or -1.\<close>

fun indexOf_from :: "nat \<Rightarrow> 'a list \<Rightarrow> 'a \<Rightarrow> int" where
  "indexOf_from i [] x = -1"
| "indexOf_from i (y # ys) x = (if y = x then int i else indexOf_from (Suc i) ys x)"

definition indexOf :: "'a list \<Rightarrow> 'a \<Rightarrow> int" where
  "indexOf xs x = indexOf_from 0 xs x"

text \<open>
  \<^verbatim>\<open>
  const userPref = preferences?.find(p => !p.cluster_id || p.cluster_id === webhook.cluster_id);
  \<close>
  \<open>preferences\<close> is the result of the query for the user's enabled Slack preferences,
  \<open>None\<close> when it is \<^verbatim>\<open>null\<close>.
\<close>

definition userPref ::
  "notification_preference list option \<Rightarrow> slack_webhook \<Rightarrow> notification_preference option" where
  "userPref preferences webhook =
     (case preferences of
        None \<Rightarrow> None
      | Some ps \<Rightarrow> find (\<lambda>p. \<not> truthy (np_cluster_id p) \<or> np_cluster_id p = wh_cluster_id webhook) ps)"

text \<open>
  \<^verbatim>\<open>
  const enabledWebhooks = webhooks.filter(webhook => {
    const userPref = ...;
    if (!userPref) return true; // Send all if no preferences set
    const severityLevels = ['low', 'medium', 'high', 'critical'];
    const messageLevel = severityLevels.indexOf(payload.severity);
    const thresholdLevel = severityLevels.indexOf(userPref.severity_threshold);
    return messageLevel >= thresholdLevel;
  });
  \<close>
\<close>

definition receives :: "string \<Rightarrow> notification_preference list option \<Rightarrow> slack_webhook \<Rightarrow> bool" where
  "receives payload_severity preferences webhook =
     (case userPref preferences webhook of
        None \<Rightarrow> True
      | Some p \<Rightarrow>
          (let messageLevel = indexOf severityLevels payload_severity;
               thresholdLevel = indexOf severityLevels (severity_threshold p)
           in messageLevel \<ge> thresholdLevel))"

definition enabledWebhooks ::
  "string \<Rightarrow> notification_preference list option \<Rightarrow> slack_webhook list \<Rightarrow> slack_webhook list" where
  "enabledWebhooks payload_severity preferences webhooks =
     filter (receives payload_severity preferences) webhooks"

section \<open>Sample inputs and auxiliary predicates\<close>

definition cluster1 :: cluster where
  "cluster1 = \<lparr>cluster_id = ''c1'', user_id = ''u1''\<rparr>"

definition sample :: "string \<Rightarrow> real \<Rightarrow> string option \<Rightarrow> metric" where
  "sample ty v node = \<lparr>metric_type = ty, m_value = v, node_name = node, resource_name = None\<rparr>"

text \<open>A memory sample of a pod: the pod queries of the collector carry no node label.\<close>

definition pod_memory :: metric where
  "pod_memory = \<lparr>metric_type = ''memory'', m_value = 97, node_name = None, resource_name = Some ''api''\<rparr>"

definition pod_memory_alert :: alert where
  "pod_memory_alert =
     \<lparr>al_cluster_id = ''c1'', al_user_id = ''u1'', al_alert_type = ''memory_pressure'',
      al_severity = ''critical'', al_threshold_value = 95, al_current_value = 97,
      al_node_name = None, al_resource_name = Some ''api'', al_resolved = False\<rparr>"

text \<open>At most one unresolved alert for every triple whose node name is not \<^verbatim>\<open>NULL\<close>.\<close>

definition named_unique :: "alert list \<Rightarrow> bool" where
  "named_unique tbl = (\<forall>cid ty n. open_alerts tbl cid ty (Some n) \<le> 1)"

definition pod_app :: pod_health where
  "pod_app = \<lparr>pod_name = ''api'', namespace = ''prod'', container_name = Some ''app'',
              restart_count = 3, status = ''Running'', updated_at = 0\<rparr>"

definition pod_sidecar :: pod_health where
  "pod_sidecar = \<lparr>pod_name = ''api'', namespace = ''prod'', container_name = Some ''sidecar'',
                  restart_count = 7, status = ''Failed'', updated_at = 600000\<rparr>"

definition rising :: "pod_health list \<Rightarrow> trend_analysis oracle_reply" where
  "rising podData =
     Reply \<lparr>significance = 0.9, direction = ''increasing'', score = 0.8, analysis = ''restarts grow''\<rparr>"

definition event1 :: event where
  "event1 = \<lparr>ev_id = ''e1'', created_at = 1000, ev_name = ''api'', ev_kind = ''Pod'', ev_namespace = ''prod''\<rparr>"

definition event2 :: event where
  "event2 = \<lparr>ev_id = ''e2'', created_at = 2000, ev_name = ''db'', ev_kind = ''Pod'', ev_namespace = ''prod''\<rparr>"

definition single_bucket :: time_window where
  "single_bucket = \<lparr>startTime = 0, endTime = 300000, events = [event1]\<rparr>"

definition pair_bucket :: time_window where
  "pair_bucket = \<lparr>startTime = 0, endTime = 300000, events = [event1, event2]\<rparr>"

text \<open>An oracle that finds every bucket correlated, with the given confidence.\<close>

definition sure :: "real \<Rightarrow> event list \<Rightarrow> correlation_json oracle_reply" where
  "sure x evs = Reply \<lparr>isCorrelated = True, cj_confidence = x, cj_rootCause = ''node pressure'',
                       cj_type = ''cascade''\<rparr>"

definition corr_ids :: "nat \<Rightarrow> string" where
  "corr_ids n = replicate (Suc n) CHR ''x''"

definition alert_a1 :: smart_alert where
  "alert_a1 = \<lparr>sa_id = ''a1'', sa_cluster_id = ''c1'', sa_alert_type = ''oomkill'', sa_severity = ''high'',
               sa_resource_name = ''api'', is_resolved = False\<rparr>"

definition alert_a2 :: smart_alert where
  "alert_a2 = \<lparr>sa_id = ''a2'', sa_cluster_id = ''c1'', sa_alert_type = ''crash_loop'', sa_severity = ''high'',
               sa_resource_name = ''web'', is_resolved = False\<rparr>"

definition advice :: suggestion_json where
  "advice = \<lparr>sj_type = ''immediate'', sj_priority = 1, sj_title = ''Raise the limit'',
             sj_description = ''The container runs out of memory'', sj_actionSteps = [''edit'', ''apply''],
             sj_estimatedImpact = ''high'', sj_difficulty = ''easy'', sj_confidence = 0.9\<rparr>"

definition adviser :: "smart_alert \<Rightarrow> cluster \<Rightarrow> suggestion_json list oracle_reply" where
  "adviser a c = Reply [advice]"

definition channel1 :: slack_webhook where
  "channel1 = \<lparr>wh_id = ''w1'', wh_cluster_id = Some ''c1'', webhook_url = ''https://hooks.example/1'',
               channel_name = ''ops''\<rparr>"

definition pref_high :: notification_preference where
  "pref_high = \<lparr>np_cluster_id = None, severity_threshold = ''high''\<rparr>"

section \<open>Component scores\<close>

lemma foldl_sum_values: "foldl (\<lambda>sum m. sum + m_value m) a xs = a + sum_list (map m_value xs)"
  by (induction xs arbitrary: a) simp_all

text \<open>
  Claim C10. When the list of samples holds no sample of the requested metric type,
  the component score of that type is exactly 100.
\<close>

theorem component_score_without_samples:
  "ty \<notin> metric_type ` set metrics \<Longrightarrow> calculateComponentScore metrics ty th = 100"
proof -
  assume "ty \<notin> metric_type ` set metrics"
  then have "filter (\<lambda>m. metric_type m = ty) metrics = []"
    by (auto simp: filter_empty_conv)
  then show ?thesis by (simp add: calculateComponentScore_def)
qed

theorem component_score_without_samples_witness:
  "''cpu'' \<notin> metric_type ` set [sample ''memory'' 99 None, sample ''disk'' 12 (Some ''n1'')]
   \<and> calculateComponentScore [sample ''memory'' 99 None, sample ''disk'' 12 (Some ''n1'')] ''cpu'' 80 = 100"
  using component_score_without_samples
          [of "''cpu''" "[sample ''memory'' 99 None, sample ''disk'' 12 (Some ''n1'')]" 80]
  by (simp add: sample_def)

text \<open>
  Claim C2, as stated, at the boundary: an average of exactly 80 against the threshold
  80 takes the branch \<open>avg \<ge> threshold\<close>, whose value there is 100 and not 50.
\<close>

theorem component_score_at_threshold_counterexample:
  "calculateComponentScore [sample ''cpu'' 80 (Some ''n1'')] ''cpu'' 80 = 100
   \<and> calculateComponentScore [sample ''cpu'' 80 (Some ''n1'')] ''cpu'' 80 \<noteq> 50"
  by (simp add: calculateComponentScore_def sample_def)

text \<open>
  Claim C2, amended. For a positive threshold and at least one sample of the type, the
  score is computed from the average \<open>avg\<close> of the values of that type, the branch
  chosen by \<open>avg \<ge> threshold\<close>: \<open>max 0 (100 - (avg - threshold) * 10)\<close> when it holds
  and \<open>max 0 (100 - (avg / threshold) * 50)\<close> otherwise. With the threshold 80, the
  average 80 yields 100, the average 79.9 yields 50.0625 and the average 80.1 yields 99.
\<close>

theorem component_score_branches:
  assumes "tm = filter (\<lambda>m. metric_type m = ty) metrics" and "tm \<noteq> []"
    and "avg = sum_list (map m_value tm) / real (length tm)" and "0 < th"
  shows "calculateComponentScore metrics ty th =
           (if avg \<ge> th then max 0 (100 - (avg - th) * 10) else max 0 (100 - (avg / th) * 50))
         \<and> (th = 80 \<and> avg = 80 \<longrightarrow> calculateComponentScore metrics ty th = 100)
         \<and> (th = 80 \<and> avg = 79.9 \<longrightarrow> calculateComponentScore metrics ty th = 50.0625)
         \<and> (th = 80 \<and> avg = 80.1 \<longrightarrow> calculateComponentScore metrics ty th = 99)"
proof -
  have eq: "calculateComponentScore metrics ty th =
           (if avg \<ge> th then max 0 (100 - (avg - th) * 10) else max 0 (100 - (avg / th) * 50))"
    using assms by (simp add: calculateComponentScore_def foldl_sum_values Let_def)
  show ?thesis
    unfolding eq by simp
qed

theorem component_score_branches_witness:
  "calculateComponentScore [sample ''cpu'' 80 None, sample ''disk'' 10 None] ''cpu'' 80 = 100
   \<and> calculateComponentScore [sample ''cpu'' 79.8 None, sample ''cpu'' 80 None] ''cpu'' 80 = 50.0625
   \<and> calculateComponentScore [sample ''cpu'' 80.1 None, sample ''disk'' 10 None] ''cpu'' 80 = 99"
  using component_score_branches
          [of "[sample ''cpu'' 80 None]" "''cpu''" "[sample ''cpu'' 80 None, sample ''disk'' 10 None]" 80 80]
        component_score_branches
          [of "[sample ''cpu'' 79.8 None, sample ''cpu'' 80 None]" "''cpu''"
              "[sample ''cpu'' 79.8 None, sample ''cpu'' 80 None]" "79.9" 80]
        component_score_branches
          [of "[sample ''cpu'' 80.1 None]" "''cpu''" "[sample ''cpu'' 80.1 None, sample ''disk'' 10 None]" "80.1" 80]
  by (simp add: sample_def)

section \<open>Pod health score\<close>

text \<open>
  Claim C6. Whenever the scorer computes a score (there are recent metrics), the pod
  health score is the number of pods whose status is Running, divided by the number of
  pods, times 100; with no pod at all (an empty or absent snapshot) it is exactly 100,
  and the scorer returns a score and not an error.
\<close>

theorem pod_health_score_formula:
  assumes "metrics \<noteq> []"
  shows "\<exists>row ret. calculateClusterHealthScore c (Some metrics) podHealth = Inr (row, ret)
          \<and> podHealthScore ret =
              (case podHealth of
                 None \<Rightarrow> 100
               | Some ps \<Rightarrow> if ps = [] then 100
                           else real (length (filter (\<lambda>p. status p = ''Running'') ps)) / real (length ps) * 100)
          \<and> healthy_pods row = (case podHealth of None \<Rightarrow> 0
                                | Some ps \<Rightarrow> length (filter (\<lambda>p. status p = ''Running'') ps))
          \<and> total_pods row = (case podHealth of None \<Rightarrow> 0 | Some ps \<Rightarrow> length ps)
          \<and> (total_pods row = 0 \<longrightarrow> podHealthScore ret = 100)"
  using assms
  by (auto simp: calculateClusterHealthScore_def Let_def split: option.splits)

theorem pod_health_score_formula_witness:
  "[sample ''cpu'' 40 (Some ''n1'')] \<noteq> []
   \<and> (\<exists>row ret. calculateClusterHealthScore cluster1 (Some [sample ''cpu'' 40 (Some ''n1'')]) (Some [])
                  = Inr (row, ret) \<and> total_pods row = 0 \<and> podHealthScore ret = 100)
   \<and> (\<exists>row ret. calculateClusterHealthScore cluster1 (Some [sample ''cpu'' 40 (Some ''n1'')])
                    (Some [pod_app, pod_sidecar])
                  = Inr (row, ret) \<and> total_pods row = 2 \<and> podHealthScore ret = 50)"
  using pod_health_score_formula [of "[sample ''cpu'' 40 (Some ''n1'')]" cluster1 "Some []"]
        pod_health_score_formula [of "[sample ''cpu'' 40 (Some ''n1'')]" cluster1 "Some [pod_app, pod_sidecar]"]
  by (auto simp: pod_app_def pod_sidecar_def)

section \<open>Threshold alerts\<close>

text \<open>
  Claim C5. For a metric type with a configured pair of thresholds, a value at or above
  the critical threshold is classified critical, never warning, and an alert inserted
  for it carries the severity critical and the critical threshold; a value below both
  thresholds is given no severity and leaves the alerts as they are.
\<close>

theorem critical_before_warning:
  assumes "thresholds (metric_type m) = Some th"
  shows "(m_value m \<ge> critical th \<longrightarrow>
            severity_of th (m_value m) = (Some ''critical'', critical th)
          \<and> fst (severity_of th (m_value m)) \<noteq> Some ''warning''
          \<and> (check_metric c m (tbl, n) = (tbl, n)
             \<or> (\<exists>a. check_metric c m (tbl, n) = (tbl @ [a], n + 1) \<and> al_severity a = ''critical''
                    \<and> al_threshold_value a = critical th)))
       \<and> (m_value m < critical th \<and> m_value m < warning th \<longrightarrow>
            fst (severity_of th (m_value m)) = None \<and> check_metric c m (tbl, n) = (tbl, n))"
  using assms
  by (auto simp: severity_of_def check_metric_def new_alert_def split: option.splits)

theorem critical_before_warning_witness:
  "thresholds (metric_type (sample ''cpu'' 95 (Some ''n1''))) = Some \<lparr>critical = 90, warning = 80\<rparr>
   \<and> severity_of \<lparr>critical = 90, warning = 80\<rparr> 95 = (Some ''critical'', 90)
   \<and> (\<exists>a. check_metric cluster1 (sample ''cpu'' 95 (Some ''n1'')) ([], 0) = ([a], 1)
          \<and> al_severity a = ''critical'')
   \<and> check_metric cluster1 (sample ''cpu'' 50 (Some ''n1'')) ([], 0) = ([], 0)"
  using critical_before_warning
          [of "sample ''cpu'' 95 (Some ''n1'')" "\<lparr>critical = 90, warning = 80\<rparr>" cluster1 "[]" 0]
        critical_before_warning
          [of "sample ''cpu'' 50 (Some ''n1'')" "\<lparr>critical = 90, warning = 80\<rparr>" cluster1 "[]" 0]
  by (simp add: sample_def thresholds_def check_metric_def severity_of_def existingAlert_def
        matching_alerts_def single_def)

lemma matching_alerts_length:
  "length (matching_alerts tbl c m) =
     open_alerts tbl (cluster_id c) (metric_type m @ ''_pressure'') (Some (or_empty (node_name m)))"
  by (simp add: matching_alerts_def open_alerts_def)

lemma open_alerts_append:
  "open_alerts (tbl @ [a]) cid ty node =
     open_alerts tbl cid ty node
     + (if al_cluster_id a = cid \<and> al_alert_type a = ty \<and> al_node_name a = node \<and> \<not> al_resolved a
        then 1 else 0)"
  by (simp add: open_alerts_def)

lemma single_None: "single rows = None \<Longrightarrow> length rows \<le> 1 \<Longrightarrow> rows = []"
  by (cases rows; cases "tl rows") (auto simp: single_def)

text \<open>
  For triples whose node name is present the lookup sees the rows the insert writes,
  and a pass keeps at most one open alert for each of them.
\<close>

lemma check_metric_named_unique:
  assumes "named_unique (fst st)"
  shows "named_unique (fst (check_metric c m st))"
proof (cases "thresholds (metric_type m)")
  case None
  then show ?thesis using assms by (simp add: check_metric_def)
next
  case th: (Some th)
  obtain sev tv where sv: "severity_of th (m_value m) = (sev, tv)"
    by (cases "severity_of th (m_value m)")
  show ?thesis
  proof (cases sev)
    case None
    then show ?thesis using assms th sv by (simp add: check_metric_def)
  next
    case (Some s)
    note s = this
    show ?thesis
    proof (cases "existingAlert (fst st) c m")
      case (Some a)
      then show ?thesis using assms th sv s by (simp add: check_metric_def)
    next
      case None
      have le: "length (matching_alerts (fst st) c m) \<le> 1"
        using assms unfolding matching_alerts_length named_unique_def by blast
      have "matching_alerts (fst st) c m = []"
        using None le unfolding existingAlert_def by (rule single_None)
      then have zero:
        "open_alerts (fst st) (cluster_id c) (metric_type m @ ''_pressure'')
           (Some (or_empty (node_name m))) = 0"
        using matching_alerts_length[of "fst st" c m] by simp
      have res: "fst (check_metric c m st) = fst st @ [new_alert c m s tv]"
        using None th sv s by (simp add: check_metric_def)
      show ?thesis
        unfolding res named_unique_def open_alerts_append
      proof (intro allI)
        fix cid ty n
        have old: "open_alerts (fst st) cid ty (Some n) \<le> 1"
          using assms unfolding named_unique_def by blast
        show "open_alerts (fst st) cid ty (Some n) +
           (if al_cluster_id (new_alert c m s tv) = cid \<and> al_alert_type (new_alert c m s tv) = ty \<and>
               al_node_name (new_alert c m s tv) = Some n \<and> \<not> al_resolved (new_alert c m s tv)
            then 1 else 0) \<le> 1"
          using old zero by (auto simp: new_alert_def or_empty_def)
      qed
    qed
  qed
qed

lemma fold_check_metric_named_unique:
  "named_unique (fst st) \<Longrightarrow> named_unique (fst (fold (check_metric c) ms st))"
  by (induction ms arbitrary: st) (simp_all add: check_metric_named_unique)

lemma checkMetricThresholds_named_unique:
  "named_unique tbl \<Longrightarrow> named_unique (fst (checkMetricThresholds c metricsq tbl))"
  by (auto simp: checkMetricThresholds_def fold_check_metric_named_unique split: option.splits)

text \<open>
  Claim C1, on a sample without node name. The lookup searches for the empty node name
  while the insert stores \<^verbatim>\<open>NULL\<close>, so the open alert of the triple
  (c1, memory_pressure, NULL) is not found: a pass over the sample creates the alert,
  and a second pass over the same sample, with that alert still unresolved, inserts a
  second row for the same triple.
\<close>

theorem null_node_alert_duplicated:
  "checkMetricThresholds cluster1 (Some [pod_memory]) [] = ([pod_memory_alert], 1)
   \<and> existingAlert [pod_memory_alert] cluster1 pod_memory = None
   \<and> checkMetricThresholds cluster1 (Some [pod_memory]) [pod_memory_alert]
       = ([pod_memory_alert, pod_memory_alert], 1)
   \<and> open_alerts [pod_memory_alert, pod_memory_alert] ''c1'' ''memory_pressure'' None = 2"
  by (simp add: checkMetricThresholds_def check_metric_def thresholds_def severity_of_def
        existingAlert_def matching_alerts_def single_def new_alert_def cluster1_def pod_memory_def
        pod_memory_alert_def or_empty_def open_alerts_def)


section \<open>Event correlation\<close>

lemma upsert_member: "r \<in> set (upsert same r xs)"
  by (induction xs) simp_all

lemma correlate_window_short: "length (events w) < 2 \<Longrightarrow> correlate_window c llm ids st w = st"
  by (cases "events w"; cases "tl (events w)") (auto simp: correlate_window_def split: list.splits)

lemma correlate_window_long:
  assumes "2 \<le> length (events w)"
  shows "correlate_window c llm ids st w =
     (if 0.7 < confidence (analyzeEventCorrelationWithAI llm (events w))
      then (upsert same_correlation
              (correlation_row c (ids (snd st)) (analyzeEventCorrelationWithAI llm (events w))
                 (hd (events w)) (tl (events w))) (fst st), snd st + 1)
      else st)"
proof -
  obtain e0 e1 rest where "events w = e0 # e1 # rest"
    using assms by (cases "events w"; cases "tl (events w)") auto
  then show ?thesis by (simp add: correlate_window_def Let_def)
qed

lemma correlate_count:
  "snd (foldl (correlate_window c llm ids) st ws) =
     snd st + length (filter (\<lambda>w. 2 \<le> length (events w)
                  \<and> 0.7 < confidence (analyzeEventCorrelationWithAI llm (events w))) ws)"
proof (induction ws arbitrary: st)
  case Nil
  show ?case by simp
next
  case (Cons w ws)
  show ?case
  proof (cases "2 \<le> length (events w)")
    case True
    then show ?thesis
      by (simp add: Cons.IH correlate_window_long)
  next
    case False
    then have "correlate_window c llm ids st w = st"
      by (simp add: correlate_window_short)
    with False show ?thesis by (simp add: Cons.IH)
  qed
qed

text \<open>
  Claim C4. A bucket with exactly one event leaves the table and the counter as they
  are, whatever the oracle answers. A bucket with two or more events produces a row
  (primary event the first of the bucket, the others related) and counts one more
  correlation exactly when the confidence of the oracle is strictly above 0.7, and
  changes nothing otherwise: a confidence of exactly 0.70 produces no row, 0.71 does.
  The count returned by the pass is the number of buckets with two or more events
  and a confidence above 0.7.
\<close>

theorem correlation_cutoff:
  "(length (events w) = 1 \<longrightarrow> correlate_window c llm ids st w = st)
   \<and> (2 \<le> length (events w) \<longrightarrow>
        (if 0.7 < confidence (analyzeEventCorrelationWithAI llm (events w))
         then snd (correlate_window c llm ids st w) = snd st + 1
              \<and> (\<exists>r \<in> set (fst (correlate_window c llm ids st w)).
                    correlation_id r = ids (snd st)
                  \<and> primary_event_id r = ev_id (hd (events w))
                  \<and> related_event_ids r = map ev_id (tl (events w))
                  \<and> confidence_score r = confidence (analyzeEventCorrelationWithAI llm (events w)))
         else correlate_window c llm ids st w = st))
   \<and> (2 \<le> length (events w) \<and> confidence (analyzeEventCorrelationWithAI llm (events w)) = 0.70 \<longrightarrow>
        correlate_window c llm ids st w = st)
   \<and> (2 \<le> length (events w) \<and> confidence (analyzeEventCorrelationWithAI llm (events w)) = 0.71 \<longrightarrow>
        snd (correlate_window c llm ids st w) = snd st + 1)
   \<and> (evs \<noteq> [] \<longrightarrow>
        snd (performEventCorrelation c llm ids (Some evs) tbl) =
          CorrelationsCreated (length (filter (\<lambda>w. 2 \<le> length (events w)
                  \<and> 0.7 < confidence (analyzeEventCorrelationWithAI llm (events w)))
                 (groupEventsByTimeWindows evs 5))))"
proof (intro conjI impI)
  assume "length (events w) = 1"
  then show "correlate_window c llm ids st w = st" by (simp add: correlate_window_short)
next
  assume len: "2 \<le> length (events w)"
  let ?r = "correlation_row c (ids (snd st)) (analyzeEventCorrelationWithAI llm (events w))
                 (hd (events w)) (tl (events w))"
  have "?r \<in> set (upsert same_correlation ?r (fst st))" by (rule upsert_member)
  moreover have "correlation_id ?r = ids (snd st)" "primary_event_id ?r = ev_id (hd (events w))"
    "related_event_ids ?r = map ev_id (tl (events w))"
    "confidence_score ?r = confidence (analyzeEventCorrelationWithAI llm (events w))"
    by (simp_all add: correlation_row_def)
  ultimately show "if 0.7 < confidence (analyzeEventCorrelationWithAI llm (events w))
         then snd (correlate_window c llm ids st w) = snd st + 1
              \<and> (\<exists>r \<in> set (fst (correlate_window c llm ids st w)).
                    correlation_id r = ids (snd st)
                  \<and> primary_event_id r = ev_id (hd (events w))
                  \<and> related_event_ids r = map ev_id (tl (events w))
                  \<and> confidence_score r = confidence (analyzeEventCorrelationWithAI llm (events w)))
         else correlate_window c llm ids st w = st"
    unfolding correlate_window_long[OF len] by auto
next
  assume "2 \<le> length (events w) \<and> confidence (analyzeEventCorrelationWithAI llm (events w)) = 0.70"
  then show "correlate_window c llm ids st w = st"
    by (simp add: correlate_window_long)
next
  assume "2 \<le> length (events w) \<and> confidence (analyzeEventCorrelationWithAI llm (events w)) = 0.71"
  then show "snd (correlate_window c llm ids st w) = snd st + 1"
    by (simp add: correlate_window_long)
next
  assume "evs \<noteq> []"
  then show "snd (performEventCorrelation c llm ids (Some evs) tbl) =
          CorrelationsCreated (length (filter (\<lambda>w. 2 \<le> length (events w)
                  \<and> 0.7 < confidence (analyzeEventCorrelationWithAI llm (events w)))
                 (groupEventsByTimeWindows evs 5)))"
    by (simp add: performEventCorrelation_def Let_def correlate_count)
qed

lemma group_two_events:
  "groupEventsByTimeWindows [event1, event2] 5 = [pair_bucket]"
  by (simp add: groupEventsByTimeWindows_def place_event_def event1_def event2_def pair_bucket_def)

theorem correlation_cutoff_witness:
  "length (events single_bucket) = 1
   \<and> correlate_window cluster1 (sure 0.99) corr_ids ([], 0) single_bucket = ([], 0)
   \<and> 2 \<le> length (events pair_bucket)
   \<and> confidence (analyzeEventCorrelationWithAI (sure 0.70) (events pair_bucket)) = 0.70
   \<and> correlate_window cluster1 (sure 0.70) corr_ids ([], 0) pair_bucket = ([], 0)
   \<and> confidence (analyzeEventCorrelationWithAI (sure 0.71) (events pair_bucket)) = 0.71
   \<and> snd (correlate_window cluster1 (sure 0.71) corr_ids ([], 0) pair_bucket) = 1
   \<and> snd (performEventCorrelation cluster1 (sure 0.71) corr_ids (Some [event1, event2]) [])
       = CorrelationsCreated 1"
  using correlation_cutoff [of single_bucket cluster1 "sure 0.99" corr_ids "([], 0)" "[event1, event2]" "[]"]
        correlation_cutoff [of pair_bucket cluster1 "sure 0.70" corr_ids "([], 0)" "[event1, event2]" "[]"]
        correlation_cutoff [of pair_bucket cluster1 "sure 0.71" corr_ids "([], 0)" "[event1, event2]" "[]"]
  by (simp add: group_two_events single_bucket_def pair_bucket_def analyzeEventCorrelationWithAI_def sure_def)

section \<open>Restart trends\<close>

lemma own_properties_Map_set: "own_properties (Map_set m k v) = own_properties m"
  by (simp add: Map_set_def)

lemma own_properties_groupBy_step: "own_properties (groupBy_step f g x) = own_properties g"
  by (simp add: groupBy_step_def Let_def own_properties_Map_set split: option.splits)

lemma own_properties_foldl: "own_properties (foldl (groupBy_step f) g xs) = own_properties g"
  by (induction xs arbitrary: g) (simp_all add: own_properties_groupBy_step)

text \<open>The groups are entries of the map, and \<open>Object_entries\<close> of it lists nothing.\<close>

lemma Object_entries_groupBy: "Object_entries (groupBy xs f) = []"
  by (simp add: Object_entries_def groupBy_def own_properties_foldl Map_new_def)

text \<open>So the loop over the groups never runs: no pass creates or changes a trend row.\<close>

lemma analyzePodRestartTrends_no_row:
  "analyzePodRestartTrends c llm now podHealthData tbl =
     (tbl, if podHealthData = None \<or> podHealthData = Some [] then TrendsAnalyzed 0 else TrendsCreated 0)"
  by (simp add: analyzePodRestartTrends_def Object_entries_groupBy split: option.splits)

text \<open>
  Claim C3, on a history with two samples of the pod api in the namespace prod and an
  oracle whose significance is 0.9. The group of the pod holds both samples and the
  body of the loop, run on that group, would upsert a row with the restart count 7 of
  the latest sample; the pass reads the groups through \<open>Object_entries\<close>, visits none,
  and leaves the table of trends empty with zero trends created.
\<close>

theorem restart_trend_not_upserted:
  "Map_get (groupBy [pod_app, pod_sidecar] (\<lambda>pod. pod_name pod @ ''_'' @ namespace pod)) ''api_prod''
      = Some [pod_app, pod_sidecar]
   \<and> significance (analyzePodTrendWithAI rising [pod_app, pod_sidecar]) > 0.5
   \<and> trend_group cluster1 rising 7200000 ([], 0) (''api_prod'', [pod_app, pod_sidecar]) =
       ([\<lparr>prt_cluster_id = ''c1'', prt_pod_name = ''api'', prt_namespace = ''prod'',
          time_window = 7200000, prt_restart_count = 7, avg_restart_interval = (10, ''minutes''),
          trend_direction = ''increasing'', trend_score = 0.8\<rparr>], 1)
   \<and> analyzePodRestartTrends cluster1 rising 7200000 (Some [pod_app, pod_sidecar]) []
       = ([], TrendsCreated 0)"
proof (intro conjI)
  show "Map_get (groupBy [pod_app, pod_sidecar] (\<lambda>pod. pod_name pod @ ''_'' @ namespace pod)) ''api_prod''
      = Some [pod_app, pod_sidecar]"
    by (simp add: groupBy_def groupBy_step_def Map_new_def Map_get_def Map_has_def Map_set_def
          pod_app_def pod_sidecar_def)
  show "significance (analyzePodTrendWithAI rising [pod_app, pod_sidecar]) > 0.5"
    by (simp add: analyzePodTrendWithAI_def rising_def)
  show "trend_group cluster1 rising 7200000 ([], 0) (''api_prod'', [pod_app, pod_sidecar]) =
       ([\<lparr>prt_cluster_id = ''c1'', prt_pod_name = ''api'', prt_namespace = ''prod'',
          time_window = 7200000, prt_restart_count = 7, avg_restart_interval = (10, ''minutes''),
          trend_direction = ''increasing'', trend_score = 0.8\<rparr>], 1)"
    by (simp add: trend_group_def analyzePodTrendWithAI_def rising_def pod_app_def pod_sidecar_def
          cluster1_def currentHour_def calculateAverageRestartInterval_def Math_round_def)
  show "analyzePodRestartTrends cluster1 rising 7200000 (Some [pod_app, pod_sidecar]) []
       = ([], TrendsCreated 0)"
    by (simp add: analyzePodRestartTrends_no_row)
qed


section \<open>Suggestions\<close>

lemma suggest_alert_existing:
  "\<exists>s \<in> set (suggestions st). alert_id s = sa_id a \<Longrightarrow> suggest_alert c llm st a = st"
  by (auto simp: suggest_alert_def Let_def filter_empty_conv)

lemma suggest_alert_fresh:
  "\<not> (\<exists>s \<in> set (suggestions st). alert_id s = sa_id a) \<Longrightarrow>
     suggest_alert c llm st a =
       \<lparr>suggestions = suggestions st @ map (suggestion_row a) (generateSuggestionsWithAI llm a c),
        oracle_calls = oracle_calls st @ [sa_id a],
        suggestionsCreated = suggestionsCreated st + length (generateSuggestionsWithAI llm a c)\<rparr>"
  by (auto simp: suggest_alert_def Let_def filter_empty_conv)

text \<open>
  What a run of the loop adds: rows only for alerts it asked the oracle about, and
  requests only for visited alerts that had no row when the run began.
\<close>

lemma foldl_suggest_alert:
  "\<exists>new calls.
      suggestions (foldl (suggest_alert c llm) st as) = suggestions st @ new
    \<and> oracle_calls (foldl (suggest_alert c llm) st as) = oracle_calls st @ calls
    \<and> suggestionsCreated (foldl (suggest_alert c llm) st as) = suggestionsCreated st + length new
    \<and> alert_id ` set new \<subseteq> set calls
    \<and> set calls \<subseteq> sa_id ` set as
    \<and> (\<forall>s \<in> set (suggestions st). alert_id s \<notin> set calls)"
proof (induction as arbitrary: st)
  case Nil
  show ?case by simp
next
  case (Cons a as)
  show ?case
  proof (cases "\<exists>s \<in> set (suggestions st). alert_id s = sa_id a")
    case True
    then have "suggest_alert c llm st a = st" by (rule suggest_alert_existing)
    with Cons.IH[of st] show ?thesis by auto
  next
    case False
    let ?g = "generateSuggestionsWithAI llm a c"
    let ?st1 = "suggest_alert c llm st a"
    have st1: "suggestions ?st1 = suggestions st @ map (suggestion_row a) ?g"
      "oracle_calls ?st1 = oracle_calls st @ [sa_id a]"
      "suggestionsCreated ?st1 = suggestionsCreated st + length ?g"
      using suggest_alert_fresh[OF False, of c llm] by simp_all
    obtain new calls where IH:
      "suggestions (foldl (suggest_alert c llm) ?st1 as) = suggestions ?st1 @ new"
      "oracle_calls (foldl (suggest_alert c llm) ?st1 as) = oracle_calls ?st1 @ calls"
      "suggestionsCreated (foldl (suggest_alert c llm) ?st1 as) = suggestionsCreated ?st1 + length new"
      "alert_id ` set new \<subseteq> set calls"
      "set calls \<subseteq> sa_id ` set as"
      "\<forall>s \<in> set (suggestions ?st1). alert_id s \<notin> set calls"
      using Cons.IH[of ?st1] by blast
    let ?new = "map (suggestion_row a) ?g @ new"
    let ?calls = "sa_id a # calls"
    have 1: "suggestions (foldl (suggest_alert c llm) st (a # as)) = suggestions st @ ?new"
      using IH(1) st1(1) by simp
    have 2: "oracle_calls (foldl (suggest_alert c llm) st (a # as)) = oracle_calls st @ ?calls"
      using IH(2) st1(2) by simp
    have 3: "suggestionsCreated (foldl (suggest_alert c llm) st (a # as))
               = suggestionsCreated st + length ?new"
      using IH(3) st1(3) by simp
    have 4: "alert_id ` set ?new \<subseteq> set ?calls"
      using IH(4) by (auto simp: suggestion_row_def)
    have 5: "set ?calls \<subseteq> sa_id ` set (a # as)"
      using IH(5) by auto
    have 6: "\<forall>s \<in> set (suggestions st). alert_id s \<notin> set ?calls"
      using IH(6) False st1(1) by auto
    from 1 2 3 4 5 6 show ?thesis by blast
  qed
qed

text \<open>
  Claim C7. A pass over a table of suggestions in which an alert already has a row
  sends no request to the oracle for that alert and leaves the rows of that alert as
  they were. Every request of the pass is for an unresolved alert of the cluster that
  had no row, and every row the pass adds belongs to an alert it requested
  suggestions for.
\<close>

theorem suggestions_only_once:
  assumes run: "generateIntelligentSuggestions c llm smart_alerts tbl = (st, res)"
  shows "(\<forall>a. (\<exists>s \<in> set tbl. alert_id s = a) \<longrightarrow>
            a \<notin> set (oracle_calls st)
          \<and> filter (\<lambda>s. alert_id s = a) (suggestions st) = filter (\<lambda>s. alert_id s = a) tbl)
       \<and> (\<forall>a \<in> set (oracle_calls st).
            (\<exists>rows x. smart_alerts = Some rows \<and> x \<in> set rows \<and> sa_id x = a
                 \<and> sa_cluster_id x = cluster_id c \<and> \<not> is_resolved x)
          \<and> \<not> (\<exists>s \<in> set tbl. alert_id s = a))
       \<and> (\<exists>new. suggestions st = tbl @ new \<and> alert_id ` set new \<subseteq> set (oracle_calls st))"
proof -
  let ?st0 = "\<lparr>suggestions = tbl, oracle_calls = [], suggestionsCreated = 0\<rparr>"
  have "\<exists>as. st = foldl (suggest_alert c llm) ?st0 as
          \<and> (as \<noteq> [] \<longrightarrow> (\<exists>rows. smart_alerts = Some rows \<and> as = unresolved_alerts c rows))"
  proof (cases smart_alerts)
    case None
    with run have "st = foldl (suggest_alert c llm) ?st0 []"
      by (simp add: generateIntelligentSuggestions_def)
    then show ?thesis by blast
  next
    case (Some rows)
    show ?thesis
    proof (cases "unresolved_alerts c rows = []")
      case True
      with run Some have "st = foldl (suggest_alert c llm) ?st0 []"
        by (simp add: generateIntelligentSuggestions_def)
      then show ?thesis by blast
    next
      case False
      with run Some have "st = foldl (suggest_alert c llm) ?st0 (unresolved_alerts c rows)"
        by (auto simp: generateIntelligentSuggestions_def Let_def)
      with Some show ?thesis by blast
    qed
  qed
  then obtain as where st: "st = foldl (suggest_alert c llm) ?st0 as"
    and as: "as \<noteq> [] \<longrightarrow> (\<exists>rows. smart_alerts = Some rows \<and> as = unresolved_alerts c rows)"
    by blast
  obtain new calls where F:
    "suggestions st = tbl @ new" "oracle_calls st = calls"
    "alert_id ` set new \<subseteq> set calls" "set calls \<subseteq> sa_id ` set as"
    "\<forall>s \<in> set tbl. alert_id s \<notin> set calls"
    using foldl_suggest_alert[of c llm ?st0 as] unfolding st by auto
  have A: "\<forall>a. (\<exists>s \<in> set tbl. alert_id s = a) \<longrightarrow>
            a \<notin> set (oracle_calls st)
          \<and> filter (\<lambda>s. alert_id s = a) (suggestions st) = filter (\<lambda>s. alert_id s = a) tbl"
  proof (intro allI impI)
    fix a assume ex: "\<exists>s \<in> set tbl. alert_id s = a"
    then have nc: "a \<notin> set calls" using F(5) by auto
    then have "filter (\<lambda>s. alert_id s = a) new = []"
      using F(3) by (auto simp: filter_empty_conv)
    then show "a \<notin> set (oracle_calls st)
          \<and> filter (\<lambda>s. alert_id s = a) (suggestions st) = filter (\<lambda>s. alert_id s = a) tbl"
      using nc F(1,2) by simp
  qed
  have B: "\<forall>a \<in> set (oracle_calls st).
            (\<exists>rows x. smart_alerts = Some rows \<and> x \<in> set rows \<and> sa_id x = a
                 \<and> sa_cluster_id x = cluster_id c \<and> \<not> is_resolved x)
          \<and> \<not> (\<exists>s \<in> set tbl. alert_id s = a)"
  proof
    fix a assume "a \<in> set (oracle_calls st)"
    then have ac: "a \<in> set calls" using F(2) by simp
    then obtain x where x: "x \<in> set as" "sa_id x = a" using F(4) by auto
    then have "as \<noteq> []" by auto
    then obtain rows where rows: "smart_alerts = Some rows" "as = unresolved_alerts c rows"
      using as by blast
    have "x \<in> set rows \<and> sa_cluster_id x = cluster_id c \<and> \<not> is_resolved x"
      using x(1) rows(2) by (auto simp: unresolved_alerts_def)
    moreover have "\<not> (\<exists>s \<in> set tbl. alert_id s = a)" using F(5) ac by auto
    ultimately show "(\<exists>rows x. smart_alerts = Some rows \<and> x \<in> set rows \<and> sa_id x = a
                 \<and> sa_cluster_id x = cluster_id c \<and> \<not> is_resolved x)
          \<and> \<not> (\<exists>s \<in> set tbl. alert_id s = a)"
      using rows(1) x(2) by blast
  qed
  have C: "\<exists>new. suggestions st = tbl @ new \<and> alert_id ` set new \<subseteq> set (oracle_calls st)"
    using F(1,2,3) by blast
  from A B C show ?thesis by blast
qed

lemma first_pass:
  "generateIntelligentSuggestions cluster1 adviser (Some [alert_a1, alert_a2]) [suggestion_row alert_a1 advice]
     = (\<lparr>suggestions = [suggestion_row alert_a1 advice, suggestion_row alert_a2 advice],
         oracle_calls = [''a2''], suggestionsCreated = 1\<rparr>, SuggestionsCreated 1)"
  by (simp add: generateIntelligentSuggestions_def unresolved_alerts_def suggest_alert_def
        generateSuggestionsWithAI_def adviser_def alert_a1_def alert_a2_def cluster1_def
        suggestion_row_def Let_def)

lemma second_pass:
  "generateIntelligentSuggestions cluster1 adviser (Some [alert_a1, alert_a2])
       [suggestion_row alert_a1 advice, suggestion_row alert_a2 advice]
     = (\<lparr>suggestions = [suggestion_row alert_a1 advice, suggestion_row alert_a2 advice],
         oracle_calls = [], suggestionsCreated = 0\<rparr>, SuggestionsCreated 0)"
  by (simp add: generateIntelligentSuggestions_def unresolved_alerts_def suggest_alert_def
        generateSuggestionsWithAI_def adviser_def alert_a1_def alert_a2_def cluster1_def
        suggestion_row_def Let_def)

theorem suggestions_only_once_witness:
  "generateIntelligentSuggestions cluster1 adviser (Some [alert_a1, alert_a2]) [suggestion_row alert_a1 advice]
     = (\<lparr>suggestions = [suggestion_row alert_a1 advice, suggestion_row alert_a2 advice],
         oracle_calls = [''a2''], suggestionsCreated = 1\<rparr>, SuggestionsCreated 1)
   \<and> (\<exists>s \<in> set [suggestion_row alert_a1 advice]. alert_id s = ''a1'')
   \<and> ''a1'' \<notin> set [''a2'']
   \<and> filter (\<lambda>s. alert_id s = ''a1'') [suggestion_row alert_a1 advice, suggestion_row alert_a2 advice]
       = filter (\<lambda>s. alert_id s = ''a1'') [suggestion_row alert_a1 advice]
   \<and> generateIntelligentSuggestions cluster1 adviser (Some [alert_a1, alert_a2])
       [suggestion_row alert_a1 advice, suggestion_row alert_a2 advice]
     = (\<lparr>suggestions = [suggestion_row alert_a1 advice, suggestion_row alert_a2 advice],
         oracle_calls = [], suggestionsCreated = 0\<rparr>, SuggestionsCreated 0)"
  using suggestions_only_once [OF first_pass] suggestions_only_once [OF second_pass]
        first_pass second_pass
  by (simp add: suggestion_row_def alert_a1_def alert_a2_def)

section \<open>Oracle failures\<close>

lemma correlate_window_failed:
  "llm (events w) = CallFailed \<Longrightarrow> correlate_window c llm ids st w = st"
  by (cases "2 \<le> length (events w)")
     (simp_all add: correlate_window_long correlate_window_short analyzeEventCorrelationWithAI_def)

lemma foldl_correlate_failed:
  "(\<And>evs. llm evs = CallFailed) \<Longrightarrow> foldl (correlate_window c llm ids) st ws = st"
  by (induction ws arbitrary: st) (simp_all add: correlate_window_failed)

lemma foldl_suggest_failed:
  "(\<And>a. llm a c = CallFailed) \<Longrightarrow>
     suggestions (foldl (suggest_alert c llm) st as) = suggestions st
   \<and> suggestionsCreated (foldl (suggest_alert c llm) st as) = suggestionsCreated st"
  by (induction as arbitrary: st)
     (simp_all add: suggest_alert_def generateSuggestionsWithAI_def Let_def)

text \<open>
  Claim C9. When the call of an oracle fails (it raises, or its output does not
  parse), the correlation wrapper returns confidence 0, the trend wrapper
  significance 0 and the suggestion wrapper the empty list; the step of the pass that
  made the call then writes no row and counts nothing. A pass all of whose oracle
  calls fail returns its ordinary result with a count of 0 and leaves its table
  unchanged.
\<close>

theorem oracle_failure_writes_nothing:
  "(llmC evs = CallFailed \<longrightarrow>
       confidence (analyzeEventCorrelationWithAI llmC evs) = 0
     \<and> (events w = evs \<longrightarrow> correlate_window c llmC ids stC w = stC))
   \<and> (llmT podData = CallFailed \<longrightarrow>
       significance (analyzePodTrendWithAI llmT podData) = 0
     \<and> trend_group c llmT now stT (podKey, podData) = stT)
   \<and> (llmS a c = CallFailed \<longrightarrow>
       generateSuggestionsWithAI llmS a c = []
     \<and> suggestions (suggest_alert c llmS stS a) = suggestions stS
     \<and> suggestionsCreated (suggest_alert c llmS stS a) = suggestionsCreated stS)
   \<and> ((\<forall>evs. llmC evs = CallFailed) \<longrightarrow>
        performEventCorrelation c llmC ids eventsq tblC
          = (tblC, if eventsq = None \<or> eventsq = Some [] then CorrelationsFound 0
                   else CorrelationsCreated 0))
   \<and> ((\<forall>podData. llmT podData = CallFailed) \<longrightarrow>
        analyzePodRestartTrends c llmT now podq tblT
          = (tblT, if podq = None \<or> podq = Some [] then TrendsAnalyzed 0 else TrendsCreated 0))
   \<and> ((\<forall>a. llmS a c = CallFailed) \<longrightarrow>
        suggestions (fst (generateIntelligentSuggestions c llmS alertsq tblS)) = tblS
      \<and> snd (generateIntelligentSuggestions c llmS alertsq tblS)
          \<in> {SuggestionsGenerated 0, SuggestionsCreated 0})"
proof (intro conjI impI)
  assume "llmC evs = CallFailed"
  then show "confidence (analyzeEventCorrelationWithAI llmC evs) = 0"
    by (simp add: analyzeEventCorrelationWithAI_def)
next
  assume "llmC evs = CallFailed" "events w = evs"
  then show "correlate_window c llmC ids stC w = stC"
    by (simp add: correlate_window_failed)
next
  assume f: "llmT podData = CallFailed"
  then show "significance (analyzePodTrendWithAI llmT podData) = 0"
    by (simp add: analyzePodTrendWithAI_def)
  from f show "trend_group c llmT now stT (podKey, podData) = stT"
    by (simp add: trend_group_def analyzePodTrendWithAI_def)
next
  assume f: "llmS a c = CallFailed"
  then show "generateSuggestionsWithAI llmS a c = []"
    by (simp add: generateSuggestionsWithAI_def)
  from f show "suggestions (suggest_alert c llmS stS a) = suggestions stS"
    by (simp add: suggest_alert_def generateSuggestionsWithAI_def Let_def)
  from f show "suggestionsCreated (suggest_alert c llmS stS a) = suggestionsCreated stS"
    by (simp add: suggest_alert_def generateSuggestionsWithAI_def Let_def)
next
  assume "\<forall>evs. llmC evs = CallFailed"
  then have "\<And>st ws. foldl (correlate_window c llmC ids) st ws = st"
    by (simp add: foldl_correlate_failed)
  then show "performEventCorrelation c llmC ids eventsq tblC
          = (tblC, if eventsq = None \<or> eventsq = Some [] then CorrelationsFound 0
                   else CorrelationsCreated 0)"
    by (simp add: performEventCorrelation_def Let_def split: option.splits)
next
  assume "\<forall>podData. llmT podData = CallFailed"
  show "analyzePodRestartTrends c llmT now podq tblT
          = (tblT, if podq = None \<or> podq = Some [] then TrendsAnalyzed 0 else TrendsCreated 0)"
    by (simp add: analyzePodRestartTrends_def Object_entries_groupBy split: option.splits)
next
  assume "\<forall>a. llmS a c = CallFailed"
  then have k: "\<And>st as. suggestions (foldl (suggest_alert c llmS) st as) = suggestions st
   \<and> suggestionsCreated (foldl (suggest_alert c llmS) st as) = suggestionsCreated st"
    by (simp add: foldl_suggest_failed)
  show "suggestions (fst (generateIntelligentSuggestions c llmS alertsq tblS)) = tblS"
    by (simp add: generateIntelligentSuggestions_def Let_def k split: option.splits)
  show "snd (generateIntelligentSuggestions c llmS alertsq tblS)
          \<in> {SuggestionsGenerated 0, SuggestionsCreated 0}"
    by (simp add: generateIntelligentSuggestions_def Let_def k split: option.splits)
qed

theorem oracle_failure_writes_nothing_witness:
  "(\<lambda>evs. CallFailed) [event1, event2] = (CallFailed :: correlation_json oracle_reply)
   \<and> events pair_bucket = [event1, event2]
   \<and> correlate_window cluster1 (\<lambda>evs. CallFailed) corr_ids ([], 0) pair_bucket = ([], 0)
   \<and> trend_group cluster1 (\<lambda>podData. CallFailed) 7200000 ([], 0) (''api_prod'', [pod_app, pod_sidecar])
       = ([], 0)
   \<and> suggestions (suggest_alert cluster1 (\<lambda>a c. CallFailed)
         \<lparr>suggestions = [], oracle_calls = [], suggestionsCreated = 0\<rparr> alert_a1) = []
   \<and> performEventCorrelation cluster1 (\<lambda>evs. CallFailed) corr_ids (Some [event1, event2]) []
       = ([], CorrelationsCreated 0)
   \<and> analyzePodRestartTrends cluster1 (\<lambda>podData. CallFailed) 7200000 (Some [pod_app, pod_sidecar]) []
       = ([], TrendsCreated 0)
   \<and> suggestions (fst (generateIntelligentSuggestions cluster1 (\<lambda>a c. CallFailed)
         (Some [alert_a1, alert_a2]) [])) = []"
  using oracle_failure_writes_nothing
          [of "\<lambda>evs. CallFailed" "[event1, event2]" pair_bucket cluster1 corr_ids "([], 0)"
              "\<lambda>podData. CallFailed" "[pod_app, pod_sidecar]" 7200000 "([], 0)" "''api_prod''"
              "\<lambda>a c. CallFailed" alert_a1 "\<lparr>suggestions = [], oracle_calls = [], suggestionsCreated = 0\<rparr>"
              "Some [event1, event2]" "[]" "Some [pod_app, pod_sidecar]" "[]"
              "Some [alert_a1, alert_a2]" "[]"]
  by (simp add: pair_bucket_def)

section \<open>Notification channels\<close>

lemma severity_indexes:
  "indexOf severityLevels ''low'' = 0" "indexOf severityLevels ''medium'' = 1"
  "indexOf severityLevels ''high'' = 2" "indexOf severityLevels ''critical'' = 3"
  by (simp_all add: indexOf_def severityLevels_def)

lemma index_at_least_high:
  "(indexOf severityLevels sev \<ge> 2) = (sev = ''high'' \<or> sev = ''critical'')"
  by (auto simp add: indexOf_def severityLevels_def)

text \<open>
  Claim C8. A webhook is kept for dispatch exactly when it is among the enabled
  webhooks and receives the event. A webhook for which no preference is found receives
  every severity. With a preference, it receives the event exactly when the index of
  the severity of the event in the scale low, medium, high, critical is at least the
  index of the threshold of the preference; with the threshold high that is exactly
  for the severities high and critical.
\<close>

theorem channel_severity_filter:
  "(w \<in> set (enabledWebhooks sev prefs whs) \<longleftrightarrow> w \<in> set whs \<and> receives sev prefs w)
   \<and> (userPref prefs w = None \<longrightarrow> receives sev prefs w)
   \<and> (userPref prefs w = Some p \<longrightarrow>
        (receives sev prefs w
           \<longleftrightarrow> indexOf severityLevels sev \<ge> indexOf severityLevels (severity_threshold p)))
   \<and> (userPref prefs w = Some p \<and> severity_threshold p = ''high'' \<longrightarrow>
        (receives sev prefs w \<longleftrightarrow> sev = ''high'' \<or> sev = ''critical''))
   \<and> indexOf severityLevels ''low'' < indexOf severityLevels ''medium''
   \<and> indexOf severityLevels ''medium'' < indexOf severityLevels ''high''
   \<and> indexOf severityLevels ''high'' < indexOf severityLevels ''critical''"
  by (auto simp: enabledWebhooks_def receives_def severity_indexes index_at_least_high)

lemma userPref_high: "userPref (Some [pref_high]) channel1 = Some pref_high"
  by (simp add: userPref_def pref_high_def truthy_def)

lemma userPref_none: "userPref (Some []) channel1 = None" "userPref None channel1 = None"
  by (simp_all add: userPref_def)

lemma pref_high_threshold: "severity_threshold pref_high = ''high''"
  by (simp add: pref_high_def)

theorem channel_severity_filter_witness:
  "userPref (Some [pref_high]) channel1 = Some pref_high \<and> severity_threshold pref_high = ''high''
   \<and> enabledWebhooks ''critical'' (Some [pref_high]) [channel1] = [channel1]
   \<and> enabledWebhooks ''high'' (Some [pref_high]) [channel1] = [channel1]
   \<and> enabledWebhooks ''medium'' (Some [pref_high]) [channel1] = []
   \<and> enabledWebhooks ''low'' (Some [pref_high]) [channel1] = []
   \<and> userPref (Some []) channel1 = None
   \<and> enabledWebhooks ''low'' (Some []) [channel1] = [channel1]
   \<and> enabledWebhooks ''low'' None [channel1] = [channel1]"
  using channel_severity_filter [of channel1 "''critical''" "Some [pref_high]" "[channel1]" pref_high]
        channel_severity_filter [of channel1 "''high''" "Some [pref_high]" "[channel1]" pref_high]
        channel_severity_filter [of channel1 "''medium''" "Some [pref_high]" "[channel1]" pref_high]
        channel_severity_filter [of channel1 "''low''" "Some [pref_high]" "[channel1]" pref_high]
        channel_severity_filter [of channel1 "''low''" "Some []" "[channel1]" pref_high]
        channel_severity_filter [of channel1 "''low''" "None" "[channel1]" pref_high]
  by (simp add: userPref_high userPref_none enabledWebhooks_def pref_high_threshold)


end
